theory Spec2Isabelle
  imports Complex_Main
begin

section \<open>ROADRUNNER UN MiniFuel: correlations, uncertainty propagation, datasets\<close>

text \<open>
  The scripts compute with Python numbers. Here a Python \<open>float\<close> is a \<^typ>\<open>real\<close>:
  the arithmetic is exact and unbounded, so rounding, overflow and underflow of
  IEEE doubles are outside this development. A Python \<open>int\<close> is an \<^typ>\<open>int\<close>.

  The correlation functions are modelled for arguments that are Python numbers
  (\<open>int\<close> or \<open>float\<close>), as a direct call passes them. What Python does where
  real arithmetic has no value is written out:
  \<^item> a float division by zero raises \<open>ZeroDivisionError\<close>;
  \<^item> a negative number raised to a fractional power does not raise: the result is a
    complex number. The development does not follow complex arithmetic; it stops
    there with \<open>ComplexValue\<close>;
  \<^item> \<open>0.0 ** p\<close> for a positive \<open>p\<close> is \<open>0.0\<close>, which is what \<open>powr\<close> gives.
  The source defines no exception class of its own and has no \<open>raise\<close> statement.
\<close>

datatype error = ZeroDivisionError | ComplexValue

definition and_then :: "error + 'a \<Rightarrow> ('a \<Rightarrow> error + 'b) \<Rightarrow> error + 'b" where
  "and_then m k = (case m of Inl e \<Rightarrow> Inl e | Inr v \<Rightarrow> k v)"

subsection \<open>scripts/sensitivity_analysis.py: the correlations\<close>

text \<open>
  \<^verbatim>\<open>return 100.0 / (np.exp(0.0025 * (90.0 * TD**0.77 / BU**0.09 - T_K)) + 1.0)\<close>
  The quotient is evaluated first: \<open>BU**0.09\<close> is \<open>0.0\<close> at \<open>BU = 0\<close> and the division
  raises; a negative \<open>TD\<close> or \<open>BU\<close> makes the power complex. The outer division is by
  \<open>exp(..) + 1\<close>, which is never zero.
\<close>

definition storms_fgr :: "real \<Rightarrow> real \<Rightarrow> real \<Rightarrow> error + real" where
  "storms_fgr T_K BU TD =
     (if BU = 0 then Inl ZeroDivisionError
      else if TD < 0 \<or> BU < 0 then Inl ComplexValue
      else Inr (100.0 / (exp (0.0025 * (90.0 * TD powr 0.77 / BU powr 0.09 - T_K)) + 1.0)))"

text \<open>
  \<^verbatim>\<open>T_C = T_K - 273.15
  return 3.05 * BU**1.92 * np.exp(-2086.0 / T_C)\<close>
  \<open>BU**1.92\<close> is \<open>0.0\<close> at \<open>BU = 0\<close> and complex for a negative \<open>BU\<close>; the division
  raises at \<open>T_C = 0\<close>.
\<close>

definition rogozkin_fgr :: "real \<Rightarrow> real \<Rightarrow> error + real" where
  "rogozkin_fgr T_K BU =
     (let T_C = T_K - 273.15 in
      if T_C = 0 then Inl ZeroDivisionError
      else if BU < 0 then Inl ComplexValue
      else Inr (3.05 * BU powr 1.92 * exp (- 2086.0 / T_C)))"

subsection \<open>scripts/sensitivity_analysis.py: uncertainty propagation parameters\<close>

definition DELTA_T :: real where "DELTA_T = 30.0"
definition DELTA_BU :: real where "DELTA_BU = 0.5"
definition DELTA_TD :: real where "DELTA_TD = 2.0"

definition H_T :: real where "H_T = 1.0"
definition H_BU :: real where "H_BU = 0.01"
definition H_TD :: real where "H_TD = 0.1"

subsection \<open>scripts/figure14_fgr_comparison.py: correlations and propagation\<close>

definition fig14_storms_fgr :: "real \<Rightarrow> real \<Rightarrow> real \<Rightarrow> error + real" where
  "fig14_storms_fgr T_K BU TD =
     (if BU = 0 then Inl ZeroDivisionError
      else if TD < 0 \<or> BU < 0 then Inl ComplexValue
      else Inr (100.0 / (exp (0.0025 * (90.0 * TD powr 0.77 / BU powr 0.09 - T_K)) + 1.0)))"

definition fig14_rogozkin_fgr :: "real \<Rightarrow> real \<Rightarrow> error + real" where
  "fig14_rogozkin_fgr T_K BU =
     (let T_C = T_K - 273.15 in
      if T_C = 0 then Inl ZeroDivisionError
      else if BU < 0 then Inl ComplexValue
      else Inr (3.05 * BU powr 1.92 * exp (- 2086.0 / T_C)))"

definition dT :: real where "dT = 30.0"
definition dBU :: real where "dBU = 0.5"
definition dTD :: real where "dTD = 2.0"

definition h_T :: real where "h_T = 1.0"
definition h_BU :: real where "h_BU = 0.01"
definition h_TD :: real where "h_TD = 0.1"

text \<open>\<open>propagate_storms\<close> returns the pair \<open>(fgr, sigma)\<close>; the seven evaluations run in
  the order of the source and the first exception ends the call.\<close>

definition propagate_storms :: "real \<Rightarrow> real \<Rightarrow> real \<Rightarrow> error + real \<times> real" where
  "propagate_storms T BU TD =
     and_then (fig14_storms_fgr T BU TD) (\<lambda>fgr.
     and_then (fig14_storms_fgr (T + h_T) BU TD) (\<lambda>f_T_plus.
     and_then (fig14_storms_fgr (T - h_T) BU TD) (\<lambda>f_T_minus.
     and_then (fig14_storms_fgr T (BU + h_BU) TD) (\<lambda>f_BU_plus.
     and_then (fig14_storms_fgr T (BU - h_BU) TD) (\<lambda>f_BU_minus.
     and_then (fig14_storms_fgr T BU (TD + h_TD)) (\<lambda>f_TD_plus.
     and_then (fig14_storms_fgr T BU (TD - h_TD)) (\<lambda>f_TD_minus.
       let df_dT = (f_T_plus - f_T_minus) / (2 * h_T);
           df_dBU = (f_BU_plus - f_BU_minus) / (2 * h_BU);
           df_dTD = (f_TD_plus - f_TD_minus) / (2 * h_TD);
           sigma = sqrt ((df_dT * dT) ^ 2 + (df_dBU * dBU) ^ 2 + (df_dTD * dTD) ^ 2)
       in Inr (fgr, sigma))))))))"

definition propagate_rogozkin :: "real \<Rightarrow> real \<Rightarrow> error + real \<times> real" where
  "propagate_rogozkin T BU =
     and_then (fig14_rogozkin_fgr T BU) (\<lambda>fgr.
     and_then (fig14_rogozkin_fgr (T + h_T) BU) (\<lambda>f_T_plus.
     and_then (fig14_rogozkin_fgr (T - h_T) BU) (\<lambda>f_T_minus.
     and_then (fig14_rogozkin_fgr T (BU + h_BU)) (\<lambda>f_BU_plus.
     and_then (fig14_rogozkin_fgr T (BU - h_BU)) (\<lambda>f_BU_minus.
       let df_dT = (f_T_plus - f_T_minus) / (2 * h_T);
           df_dBU = (f_BU_plus - f_BU_minus) / (2 * h_BU);
           sigma = sqrt ((df_dT * dT) ^ 2 + (df_dBU * dBU) ^ 2)
       in Inr (fgr, sigma))))))"

subsection \<open>scripts/figure15_swelling_ross.py: the Ross correlation\<close>

text \<open>\<^verbatim>\<open>return 4.7e-11 * T_K**3.12 * BU**0.83 * TD**0.5\<close>
  No division; a negative base makes the power complex.\<close>

definition ross_swelling :: "real \<Rightarrow> real \<Rightarrow> real \<Rightarrow> error + real" where
  "ross_swelling T_K BU TD =
     (if T_K < 0 \<or> BU < 0 \<or> TD < 0 then Inl ComplexValue
      else Inr (4.7 / 10 ^ 11 * T_K powr 3.12 * BU powr 0.83 * TD powr 0.5))"

subsection \<open>The specimen tables of the four scripts\<close>

text \<open>scripts/sensitivity_analysis.py, lines 36 to 70.\<close>

definition data_Sample_ID :: "string list" where
  "data_Sample_ID =
     [''RRN01-6'', ''RRN01-5'', ''RRN01-4'', ''RRN01-3'', ''RRN01-2'', ''RRN01-1'',
      ''RRN02-6'', ''RRN02-5'', ''RRN02-4'', ''RRN02-3'', ''RRN02-2'', ''RRN02-1'',
      ''RRN03-6'', ''RRN03-5'', ''RRN03-4'', ''RRN03-3'', ''RRN03-2'', ''RRN03-1'',
      ''RRN04-6'', ''RRN04-5'', ''RRN04-4'', ''RRN04-3'', ''RRN04-2'', ''RRN04-1'',
      ''RRN05-6'', ''RRN05-5'', ''RRN05-4'', ''RRN05-3'', ''RRN05-2'', ''RRN05-1'',
      ''RRN06-6'', ''RRN06-5'', ''RRN06-4'', ''RRN06-3'', ''RRN06-2'', ''RRN06-1'']"

definition data_Target :: "int list" where
  "data_Target =
     replicate 6 1 @ replicate 6 2 @ replicate 6 3 @ replicate 6 4 @ replicate 6 5 @ replicate 6 6"

definition data_T_K :: "int list" where
  "data_T_K =
     [1190, 1190, 1181, 1183, 1163, 1182,
      877, 881, 1183, 1479, 1487, 1181,
      1184, 1187, 1181, 1172, 1187, 1181,
      875, 881, 1172, 1483, 1490, 1175,
      1191, 1183, 1183, 1179, 1182, 1175,
      877, 881, 1183, 1479, 1487, 1181]"

definition data_BU_FIMA :: "real list" where
  "data_BU_FIMA =
     [7.058, 7.470, 7.657, 7.839, 7.730, 7.576,
      7.338, 7.726, 7.908, 8.081, 8.020, 7.716,
      3.498, 3.681, 3.741, 3.852, 3.842, 3.740,
      5.936, 6.229, 6.399, 6.517, 6.451, 6.237,
      5.485, 5.751, 5.985, 5.990, 5.983, 5.863,
      3.757, 4.027, 4.096, 4.217, 4.163, 3.958]"

definition data_TD_pct :: "real list" where
  "data_TD_pct =
     [92.89, 94.21, 93.43, 94.73, 95.21, 95.76,
      94.79, 94.36, 93.19, 92.00, 95.01, 95.49,
      89.09, 86.27, 89.02, 95.21, 95.91, 94.50,
      94.33, 95.45, 95.59, 93.48, 96.05, 95.60,
      87.30, 88.57, 88.19, 93.27, 94.07, 96.32,
      94.10, 95.43, 95.63, 95.14, 96.14, 95.01]"

text \<open>scripts/figure14_fgr_comparison.py, lines 24 to 58.\<close>

definition fig14_data_Target :: "int list" where
  "fig14_data_Target =
     replicate 6 1 @ replicate 6 2 @ replicate 6 3 @ replicate 6 4 @ replicate 6 5 @ replicate 6 6"

definition fig14_data_Sample_ID :: "string list" where
  "fig14_data_Sample_ID =
     [''RRN01-6'', ''RRN01-5'', ''RRN01-4'', ''RRN01-3'', ''RRN01-2'', ''RRN01-1'',
      ''RRN02-6'', ''RRN02-5'', ''RRN02-4'', ''RRN02-3'', ''RRN02-2'', ''RRN02-1'',
      ''RRN03-6'', ''RRN03-5'', ''RRN03-4'', ''RRN03-3'', ''RRN03-2'', ''RRN03-1'',
      ''RRN04-6'', ''RRN04-5'', ''RRN04-4'', ''RRN04-3'', ''RRN04-2'', ''RRN04-1'',
      ''RRN05-6'', ''RRN05-5'', ''RRN05-4'', ''RRN05-3'', ''RRN05-2'', ''RRN05-1'',
      ''RRN06-6'', ''RRN06-5'', ''RRN06-4'', ''RRN06-3'', ''RRN06-2'', ''RRN06-1'']"

definition fig14_data_BU :: "real list" where
  "fig14_data_BU =
     [7.058, 7.470, 7.657, 7.839, 7.730, 7.576,
      7.338, 7.726, 7.908, 8.081, 8.020, 7.716,
      3.498, 3.681, 3.741, 3.852, 3.842, 3.740,
      5.936, 6.229, 6.399, 6.517, 6.451, 6.237,
      5.485, 5.751, 5.985, 5.990, 5.983, 5.863,
      3.757, 4.027, 4.096, 4.217, 4.163, 3.958]"

definition fig14_data_T :: "int list" where
  "fig14_data_T =
     [1190, 1190, 1181, 1183, 1163, 1182,
      877, 881, 1183, 1479, 1487, 1181,
      1184, 1187, 1181, 1172, 1187, 1181,
      875, 881, 1172, 1483, 1490, 1175,
      1191, 1183, 1183, 1179, 1182, 1175,
      877, 881, 1183, 1479, 1487, 1181]"

definition fig14_data_TD :: "real list" where
  "fig14_data_TD =
     [92.89, 94.21, 93.43, 94.73, 95.21, 95.76,
      94.79, 94.36, 93.19, 92.00, 95.01, 95.49,
      89.09, 86.27, 89.02, 95.21, 95.91, 94.50,
      94.33, 95.45, 95.59, 93.48, 96.05, 95.60,
      87.30, 88.57, 88.19, 93.27, 94.07, 96.32,
      94.10, 95.43, 95.63, 95.14, 96.14, 95.01]"

text \<open>scripts/figure15_swelling_ross.py, lines 34 to 68.\<close>

definition fig15_data_Target :: "int list" where
  "fig15_data_Target =
     replicate 6 1 @ replicate 6 2 @ replicate 6 3 @ replicate 6 4 @ replicate 6 5 @ replicate 6 6"

definition fig15_data_Sample_ID :: "string list" where
  "fig15_data_Sample_ID =
     [''RRN01-6'', ''RRN01-5'', ''RRN01-4'', ''RRN01-3'', ''RRN01-2'', ''RRN01-1'',
      ''RRN02-6'', ''RRN02-5'', ''RRN02-4'', ''RRN02-3'', ''RRN02-2'', ''RRN02-1'',
      ''RRN03-6'', ''RRN03-5'', ''RRN03-4'', ''RRN03-3'', ''RRN03-2'', ''RRN03-1'',
      ''RRN04-6'', ''RRN04-5'', ''RRN04-4'', ''RRN04-3'', ''RRN04-2'', ''RRN04-1'',
      ''RRN05-6'', ''RRN05-5'', ''RRN05-4'', ''RRN05-3'', ''RRN05-2'', ''RRN05-1'',
      ''RRN06-6'', ''RRN06-5'', ''RRN06-4'', ''RRN06-3'', ''RRN06-2'', ''RRN06-1'']"

definition fig15_data_BU :: "real list" where
  "fig15_data_BU =
     [7.058, 7.470, 7.657, 7.839, 7.730, 7.576,
      7.338, 7.726, 7.908, 8.081, 8.020, 7.716,
      3.498, 3.681, 3.741, 3.852, 3.842, 3.740,
      5.936, 6.229, 6.399, 6.517, 6.451, 6.237,
      5.485, 5.751, 5.985, 5.990, 5.983, 5.863,
      3.757, 4.027, 4.096, 4.217, 4.163, 3.958]"

definition fig15_data_T :: "int list" where
  "fig15_data_T =
     [1190, 1190, 1181, 1183, 1163, 1182,
      877, 881, 1183, 1479, 1487, 1181,
      1184, 1187, 1181, 1172, 1187, 1181,
      875, 881, 1172, 1483, 1490, 1175,
      1191, 1183, 1183, 1179, 1182, 1175,
      877, 881, 1183, 1479, 1487, 1181]"

definition fig15_data_TD :: "real list" where
  "fig15_data_TD =
     [92.89, 94.21, 93.43, 94.73, 95.21, 95.76,
      94.79, 94.36, 93.19, 92.00, 95.01, 95.49,
      89.09, 86.27, 89.02, 95.21, 95.91, 94.50,
      94.33, 95.45, 95.59, 93.48, 96.05, 95.60,
      87.30, 88.57, 88.19, 93.27, 94.07, 96.32,
      94.10, 95.43, 95.63, 95.14, 96.14, 95.01]"

text \<open>scripts/figure12_irradiation_conditions.py, lines 21 to 55.\<close>

definition fig12_data_Target :: "int list" where
  "fig12_data_Target =
     replicate 6 1 @ replicate 6 2 @ replicate 6 3 @ replicate 6 4 @ replicate 6 5 @ replicate 6 6"

definition fig12_data_Sample_ID :: "string list" where
  "fig12_data_Sample_ID =
     [''RRN01-6'', ''RRN01-5'', ''RRN01-4'', ''RRN01-3'', ''RRN01-2'', ''RRN01-1'',
      ''RRN02-6'', ''RRN02-5'', ''RRN02-4'', ''RRN02-3'', ''RRN02-2'', ''RRN02-1'',
      ''RRN03-6'', ''RRN03-5'', ''RRN03-4'', ''RRN03-3'', ''RRN03-2'', ''RRN03-1'',
      ''RRN04-6'', ''RRN04-5'', ''RRN04-4'', ''RRN04-3'', ''RRN04-2'', ''RRN04-1'',
      ''RRN05-6'', ''RRN05-5'', ''RRN05-4'', ''RRN05-3'', ''RRN05-2'', ''RRN05-1'',
      ''RRN06-6'', ''RRN06-5'', ''RRN06-4'', ''RRN06-3'', ''RRN06-2'', ''RRN06-1'']"

definition fig12_data_Burnup_FIMA :: "real list" where
  "fig12_data_Burnup_FIMA =
     [7.058, 7.470, 7.657, 7.839, 7.730, 7.576,
      7.338, 7.726, 7.908, 8.081, 8.020, 7.716,
      3.498, 3.681, 3.741, 3.852, 3.842, 3.740,
      5.936, 6.229, 6.399, 6.517, 6.451, 6.237,
      5.485, 5.751, 5.985, 5.990, 5.983, 5.863,
      3.757, 4.027, 4.096, 4.217, 4.163, 3.958]"

definition fig12_data_Temperature_K :: "int list" where
  "fig12_data_Temperature_K =
     [1190, 1190, 1181, 1183, 1163, 1182,
      877, 881, 1183, 1479, 1487, 1181,
      1184, 1187, 1181, 1172, 1187, 1181,
      875, 881, 1172, 1483, 1490, 1175,
      1191, 1183, 1183, 1179, 1182, 1175,
      877, 881, 1183, 1479, 1487, 1181]"

definition fig12_data_Density_TD :: "real list" where
  "fig12_data_Density_TD =
     [92.89, 94.21, 93.43, 94.73, 95.21, 95.76,
      94.79, 94.36, 93.19, 92.00, 95.01, 95.49,
      89.09, 86.27, 89.02, 95.21, 95.91, 94.50,
      94.33, 95.45, 95.59, 93.48, 96.05, 95.60,
      87.30, 88.57, 88.19, 93.27, 94.07, 96.32,
      94.10, 95.43, 95.63, 95.14, 96.14, 95.01]"

subsection \<open>scripts/sensitivity_analysis.py: the per-specimen loop\<close>

text \<open>One row of the frame \<open>df = pd.DataFrame(data)\<close>. The five lists have the same
  length, so \<open>zip\<close> drops nothing.\<close>

record specimen =
  Sample_ID :: string
  Target :: int
  T_K :: int
  BU_FIMA :: real
  TD_pct :: real

definition df :: "specimen list" where
  "df = map (\<lambda>(sid, tgt, t, bu, td).
              \<lparr>Sample_ID = sid, Target = tgt, T_K = t, BU_FIMA = bu, TD_pct = td\<rparr>)
            (zip data_Sample_ID (zip data_Target (zip data_T_K (zip data_BU_FIMA data_TD_pct))))"

text \<open>The local variables of one iteration of \<open>for _, row in df.iterrows()\<close>.\<close>

record loop_vars =
  fgr_s :: real
  dfdT_s :: real
  dfdBU_s :: real
  dfdTD_s :: real
  var_T_s :: real
  var_BU_s :: real
  var_TD_s :: real
  var_total_s :: real
  sigma_s :: real
  fgr_r :: real
  dfdT_r :: real
  dfdBU_r :: real
  var_T_r :: real
  var_BU_r :: real
  var_total_r :: real
  sigma_r :: real

definition loop_locals :: "specimen \<Rightarrow> error + loop_vars" where
  "loop_locals row =
     (let T = real_of_int (T_K row); BU = BU_FIMA row; TD = TD_pct row in
      and_then (storms_fgr T BU TD) (\<lambda>fgr_s.
      and_then (storms_fgr (T + H_T) BU TD) (\<lambda>s_T_plus.
      and_then (storms_fgr (T - H_T) BU TD) (\<lambda>s_T_minus.
      let dfdT_s = (s_T_plus - s_T_minus) / (2 * H_T) in
      and_then (storms_fgr T (BU + H_BU) TD) (\<lambda>s_BU_plus.
      and_then (storms_fgr T (BU - H_BU) TD) (\<lambda>s_BU_minus.
      let dfdBU_s = (s_BU_plus - s_BU_minus) / (2 * H_BU) in
      and_then (storms_fgr T BU (TD + H_TD)) (\<lambda>s_TD_plus.
      and_then (storms_fgr T BU (TD - H_TD)) (\<lambda>s_TD_minus.
      let dfdTD_s = (s_TD_plus - s_TD_minus) / (2 * H_TD);
          var_T_s = (dfdT_s * DELTA_T) ^ 2;
          var_BU_s = (dfdBU_s * DELTA_BU) ^ 2;
          var_TD_s = (dfdTD_s * DELTA_TD) ^ 2;
          var_total_s = var_T_s + var_BU_s + var_TD_s;
          sigma_s = sqrt var_total_s in
      and_then (rogozkin_fgr T BU) (\<lambda>fgr_r.
      and_then (rogozkin_fgr (T + H_T) BU) (\<lambda>r_T_plus.
      and_then (rogozkin_fgr (T - H_T) BU) (\<lambda>r_T_minus.
      let dfdT_r = (r_T_plus - r_T_minus) / (2 * H_T) in
      and_then (rogozkin_fgr T (BU + H_BU)) (\<lambda>r_BU_plus.
      and_then (rogozkin_fgr T (BU - H_BU)) (\<lambda>r_BU_minus.
      let dfdBU_r = (r_BU_plus - r_BU_minus) / (2 * H_BU);
          var_T_r = (dfdT_r * DELTA_T) ^ 2;
          var_BU_r = (dfdBU_r * DELTA_BU) ^ 2;
          var_total_r = var_T_r + var_BU_r;
          sigma_r = sqrt var_total_r in
      Inr \<lparr>fgr_s = fgr_s, dfdT_s = dfdT_s, dfdBU_s = dfdBU_s, dfdTD_s = dfdTD_s,
           var_T_s = var_T_s, var_BU_s = var_BU_s, var_TD_s = var_TD_s,
           var_total_s = var_total_s, sigma_s = sigma_s,
           fgr_r = fgr_r, dfdT_r = dfdT_r, dfdBU_r = dfdBU_r,
           var_T_r = var_T_r, var_BU_r = var_BU_r,
           var_total_r = var_total_r, sigma_r = sigma_r\<rparr>)))))))))))))"

text \<open>The dictionary appended to \<open>results\<close>: the five columns of the row, then the
  computed entries. \<open>x if c else 0\<close> is \<open>if c then x else 0\<close>.\<close>

record result = specimen +
  FGR_Storms :: real
  sigma_Storms :: real
  Storms_var_T_pct :: real
  Storms_var_BU_pct :: real
  Storms_var_TD_pct :: real
  FGR_Rogozkin :: real
  sigma_Rogozkin :: real
  Rogozkin_var_T_pct :: real
  Rogozkin_var_BU_pct :: real
  Abs_Discrepancy :: real

definition results_entry :: "specimen \<Rightarrow> loop_vars \<Rightarrow> result" where
  "results_entry row l =
     \<lparr>Sample_ID = Sample_ID row, Target = Target row, T_K = T_K row,
      BU_FIMA = BU_FIMA row, TD_pct = TD_pct row,
      FGR_Storms = fgr_s l,
      sigma_Storms = sigma_s l,
      Storms_var_T_pct = (if var_total_s l > 0 then 100 * var_T_s l / var_total_s l else 0),
      Storms_var_BU_pct = (if var_total_s l > 0 then 100 * var_BU_s l / var_total_s l else 0),
      Storms_var_TD_pct = (if var_total_s l > 0 then 100 * var_TD_s l / var_total_s l else 0),
      FGR_Rogozkin = fgr_r l,
      sigma_Rogozkin = sigma_r l,
      Rogozkin_var_T_pct = (if var_total_r l > 0 then 100 * var_T_r l / var_total_r l else 0),
      Rogozkin_var_BU_pct = (if var_total_r l > 0 then 100 * var_BU_r l / var_total_r l else 0),
      Abs_Discrepancy = \<bar>fgr_s l - fgr_r l\<bar>\<rparr>"

definition loop_body :: "specimen \<Rightarrow> error + result" where
  "loop_body row = and_then (loop_locals row) (\<lambda>l. Inr (results_entry row l))"

text \<open>A loop over the rows that collects one value per row; an exception in a row ends
  the script.\<close>

fun for_each :: "('a \<Rightarrow> error + 'b) \<Rightarrow> 'a list \<Rightarrow> error + 'b list" where
  "for_each f [] = Inr []"
| "for_each f (x # xs) =
     and_then (f x) (\<lambda>y. and_then (for_each f xs) (\<lambda>ys. Inr (y # ys)))"

definition results :: "error + result list" where
  "results = for_each loop_body df"

subsection \<open>scripts/figure14_fgr_comparison.py and figure15_swelling_ross.py: the row-wise calls\<close>

definition storms_results :: "error + (real \<times> real) list" where
  "storms_results =
     for_each (\<lambda>(t, bu, td). propagate_storms (real_of_int t) bu td)
       (zip fig14_data_T (zip fig14_data_BU fig14_data_TD))"

definition rogozkin_results :: "error + (real \<times> real) list" where
  "rogozkin_results =
     for_each (\<lambda>(t, bu). propagate_rogozkin (real_of_int t) bu)
       (zip fig14_data_T fig14_data_BU)"

definition Swelling_Ross :: "error + real list" where
  "Swelling_Ross =
     for_each (\<lambda>(t, bu, td). ross_swelling (real_of_int t) bu td)
       (zip fig15_data_T (zip fig15_data_BU fig15_data_TD))"

subsection \<open>The formulas as the specification words them\<close>

text \<open>Form A, the sigmoid saturation: \<open>100 / (exp(k (c1 rho^a / BU^b - T)) + 1)\<close>.\<close>

definition spec_form_A :: "real \<Rightarrow> real \<Rightarrow> real \<Rightarrow> real \<Rightarrow> real \<Rightarrow> real \<Rightarrow> real \<Rightarrow> real" where
  "spec_form_A k c1 a b T BU rho = 100 / (exp (k * (c1 * rho powr a / BU powr b - T)) + 1)"

text \<open>Form B, the Arrhenius type: \<open>c2 BU^p exp(-E / (T - 273.15))\<close>.\<close>

definition spec_form_B :: "real \<Rightarrow> real \<Rightarrow> real \<Rightarrow> real \<Rightarrow> real \<Rightarrow> real" where
  "spec_form_B c2 p E T BU = c2 * BU powr p * exp (- E / (T - 273.15))"

text \<open>The centered difference \<open>(f(x+h) - f(x-h)) / (2h)\<close>.\<close>

definition spec_central_difference :: "(real \<Rightarrow> real) \<Rightarrow> real \<Rightarrow> real \<Rightarrow> real" where
  "spec_central_difference f x h = (f (x + h) - f (x - h)) / (2 * h)"

text \<open>The two forms with the constants of the specification.\<close>

abbreviation form_A :: "real \<Rightarrow> real \<Rightarrow> real \<Rightarrow> real" where
  "form_A T BU rho \<equiv> spec_form_A 0.0025 90 0.77 0.09 T BU rho"

abbreviation form_B :: "real \<Rightarrow> real \<Rightarrow> real" where
  "form_B T BU \<equiv> spec_form_B 3.05 1.92 2086 T BU"

section \<open>Auxiliary facts\<close>

subsection \<open>Sequencing and the domains on which the correlations return\<close>

lemma and_then_Inr [simp]: "and_then (Inr v) k = k v"
  by (simp add: and_then_def)

lemma and_then_Inl [simp]: "and_then (Inl e) k = Inl e"
  by (simp add: and_then_def)

lemma and_then_eq_Inr: "and_then m k = Inr r \<longleftrightarrow> (\<exists>v. m = Inr v \<and> k v = Inr r)"
  by (cases m) simp_all

lemma storms_fgr_Inr_iff:
  "storms_fgr T BU TD = Inr v \<longleftrightarrow>
     0 < BU \<and> 0 \<le> TD \<and> v = spec_form_A 0.0025 90 0.77 0.09 T BU TD"
  by (auto simp: storms_fgr_def spec_form_A_def)

lemma fig14_storms_fgr_Inr_iff:
  "fig14_storms_fgr T BU TD = Inr v \<longleftrightarrow>
     0 < BU \<and> 0 \<le> TD \<and> v = spec_form_A 0.0025 90 0.77 0.09 T BU TD"
  by (auto simp: fig14_storms_fgr_def spec_form_A_def)

lemma rogozkin_fgr_Inr_iff:
  "rogozkin_fgr T BU = Inr v \<longleftrightarrow>
     T \<noteq> 273.15 \<and> 0 \<le> BU \<and> v = spec_form_B 3.05 1.92 2086 T BU"
  by (auto simp: rogozkin_fgr_def spec_form_B_def Let_def)

lemma fig14_rogozkin_fgr_Inr_iff:
  "fig14_rogozkin_fgr T BU = Inr v \<longleftrightarrow>
     T \<noteq> 273.15 \<and> 0 \<le> BU \<and> v = spec_form_B 3.05 1.92 2086 T BU"
  by (auto simp: fig14_rogozkin_fgr_def spec_form_B_def Let_def)

lemma ross_swelling_Inr_iff:
  "ross_swelling T BU TD = Inr v \<longleftrightarrow>
     0 \<le> T \<and> 0 \<le> BU \<and> 0 \<le> TD \<and> v = 4.7 / 10 ^ 11 * T powr 3.12 * BU powr 0.83 * TD powr 0.5"
  by (auto simp: ross_swelling_def)

lemma ross_swelling_InrI:
  assumes "0 \<le> T" "0 \<le> BU" "0 \<le> TD"
  shows "\<exists>v. ross_swelling T BU TD = Inr v"
proof -
  have "ross_swelling T BU TD = Inr (4.7 / 10 ^ 11 * T powr 3.12 * BU powr 0.83 * TD powr 0.5)"
    using assms by (subst ross_swelling_Inr_iff) simp
  then show ?thesis ..
qed

lemma projr_storms_fgr:
  "0 < BU \<Longrightarrow> 0 \<le> TD \<Longrightarrow> projr (storms_fgr T BU TD) = form_A T BU TD"
  by (simp add: storms_fgr_def spec_form_A_def)

lemma projr_fig14_storms_fgr:
  "0 < BU \<Longrightarrow> 0 \<le> TD \<Longrightarrow> projr (fig14_storms_fgr T BU TD) = form_A T BU TD"
  by (simp add: fig14_storms_fgr_def spec_form_A_def)

lemma projr_rogozkin_fgr:
  "T \<noteq> 273.15 \<Longrightarrow> 0 \<le> BU \<Longrightarrow> projr (rogozkin_fgr T BU) = form_B T BU"
  by (simp add: rogozkin_fgr_def spec_form_B_def Let_def)

lemma projr_fig14_rogozkin_fgr:
  "T \<noteq> 273.15 \<Longrightarrow> 0 \<le> BU \<Longrightarrow> projr (fig14_rogozkin_fgr T BU) = form_B T BU"
  by (simp add: fig14_rogozkin_fgr_def spec_form_B_def Let_def)

lemma for_each_Inr:
  assumes "list_all (\<lambda>x. \<exists>y. f x = Inr y) xs"
  shows "\<exists>ys. for_each f xs = Inr ys \<and> length ys = length xs"
  using assms by (induction xs) auto

subsection \<open>What a completed iteration of the loop has computed\<close>

lemma loop_locals_InrD:
  assumes "loop_locals row = Inr l"
  shows "0 < BU_FIMA row - H_BU \<and> 0 \<le> TD_pct row - H_TD
       \<and> real_of_int (T_K row) \<noteq> 273.15
       \<and> real_of_int (T_K row) + H_T \<noteq> 273.15
       \<and> real_of_int (T_K row) - H_T \<noteq> 273.15"
    and "fgr_s l = form_A (real_of_int (T_K row)) (BU_FIMA row) (TD_pct row)"
    and "dfdT_s l = (form_A (real_of_int (T_K row) + H_T) (BU_FIMA row) (TD_pct row)
                   - form_A (real_of_int (T_K row) - H_T) (BU_FIMA row) (TD_pct row)) / (2 * H_T)"
    and "dfdBU_s l = (form_A (real_of_int (T_K row)) (BU_FIMA row + H_BU) (TD_pct row)
                   - form_A (real_of_int (T_K row)) (BU_FIMA row - H_BU) (TD_pct row)) / (2 * H_BU)"
    and "dfdTD_s l = (form_A (real_of_int (T_K row)) (BU_FIMA row) (TD_pct row + H_TD)
                   - form_A (real_of_int (T_K row)) (BU_FIMA row) (TD_pct row - H_TD)) / (2 * H_TD)"
    and "var_T_s l = (dfdT_s l * DELTA_T) ^ 2"
    and "var_BU_s l = (dfdBU_s l * DELTA_BU) ^ 2"
    and "var_TD_s l = (dfdTD_s l * DELTA_TD) ^ 2"
    and "var_total_s l = var_T_s l + var_BU_s l + var_TD_s l"
    and "sigma_s l = sqrt (var_total_s l)"
    and "fgr_r l = form_B (real_of_int (T_K row)) (BU_FIMA row)"
    and "dfdT_r l = (form_B (real_of_int (T_K row) + H_T) (BU_FIMA row)
                   - form_B (real_of_int (T_K row) - H_T) (BU_FIMA row)) / (2 * H_T)"
    and "dfdBU_r l = (form_B (real_of_int (T_K row)) (BU_FIMA row + H_BU)
                   - form_B (real_of_int (T_K row)) (BU_FIMA row - H_BU)) / (2 * H_BU)"
    and "var_T_r l = (dfdT_r l * DELTA_T) ^ 2"
    and "var_BU_r l = (dfdBU_r l * DELTA_BU) ^ 2"
    and "var_total_r l = var_T_r l + var_BU_r l"
    and "sigma_r l = sqrt (var_total_r l)"
  using assms unfolding loop_locals_def Let_def
  by (auto simp: and_then_eq_Inr storms_fgr_Inr_iff rogozkin_fgr_Inr_iff)

lemma loop_locals_InrI:
  assumes "H_BU < BU_FIMA row" "H_TD \<le> TD_pct row" "273.15 + H_T < real_of_int (T_K row)"
  shows "\<exists>l. loop_locals row = Inr l"
  using assms unfolding loop_locals_def Let_def
  by (simp add: and_then_eq_Inr storms_fgr_Inr_iff rogozkin_fgr_Inr_iff H_T_def H_BU_def H_TD_def)

lemma propagate_storms_InrD:
  assumes "propagate_storms T BU TD = Inr p"
  shows "0 < BU - h_BU \<and> 0 \<le> TD - h_TD"
    and "fst p = form_A T BU TD"
    and "snd p = sqrt (((form_A (T + h_T) BU TD - form_A (T - h_T) BU TD) / (2 * h_T) * dT) ^ 2
                     + ((form_A T (BU + h_BU) TD - form_A T (BU - h_BU) TD) / (2 * h_BU) * dBU) ^ 2
                     + ((form_A T BU (TD + h_TD) - form_A T BU (TD - h_TD)) / (2 * h_TD) * dTD) ^ 2)"
  using assms unfolding propagate_storms_def Let_def
  by (auto simp: and_then_eq_Inr fig14_storms_fgr_Inr_iff)

lemma propagate_rogozkin_InrD:
  assumes "propagate_rogozkin T BU = Inr p"
  shows "0 \<le> BU - h_BU \<and> T \<noteq> 273.15 \<and> T + h_T \<noteq> 273.15 \<and> T - h_T \<noteq> 273.15"
    and "fst p = form_B T BU"
    and "snd p = sqrt (((form_B (T + h_T) BU - form_B (T - h_T) BU) / (2 * h_T) * dT) ^ 2
                     + ((form_B T (BU + h_BU) - form_B T (BU - h_BU)) / (2 * h_BU) * dBU) ^ 2)"
  using assms unfolding propagate_rogozkin_def Let_def
  by (auto simp: and_then_eq_Inr fig14_rogozkin_fgr_Inr_iff)

lemma propagate_storms_InrI:
  assumes "h_BU < BU" "h_TD \<le> TD"
  shows "\<exists>p. propagate_storms T BU TD = Inr p"
  using assms unfolding propagate_storms_def Let_def
  by (simp add: and_then_eq_Inr fig14_storms_fgr_Inr_iff h_BU_def h_TD_def)

lemma propagate_rogozkin_InrI:
  assumes "h_BU \<le> BU" "273.15 + h_T < T"
  shows "\<exists>p. propagate_rogozkin T BU = Inr p"
  using assms unfolding propagate_rogozkin_def Let_def
  by (simp add: and_then_eq_Inr fig14_rogozkin_fgr_Inr_iff h_BU_def h_T_def)

subsection \<open>Range and monotonicity of the formulas\<close>


lemma form_A_mono_T:
  assumes "T1 < T2"
  shows "form_A T1 BU rho < form_A T2 BU rho"
proof -
  let ?c = "90 * rho powr 0.77 / BU powr 0.09"
  have "exp (0.0025 * (?c - T2)) < exp (0.0025 * (?c - T1))"
    using assms by simp
  then have "exp (0.0025 * (?c - T2)) + 1 < exp (0.0025 * (?c - T1)) + 1"
    by simp
  moreover have "0 < exp (0.0025 * (?c - T2)) + 1"
    by (simp add: add_pos_pos)
  ultimately have "100 / (exp (0.0025 * (?c - T1)) + 1) < 100 / (exp (0.0025 * (?c - T2)) + 1)"
    by (intro divide_strict_left_mono mult_pos_pos) (simp_all add: add_pos_pos)
  then show ?thesis
    by (simp add: spec_form_A_def)
qed

lemma form_B_mono_T:
  assumes "273.15 < T1" "T1 < T2" "0 < BU"
  shows "form_B T1 BU < form_B T2 BU"
proof -
  have pos: "0 < T1 - 273.15" "0 < T2 - 273.15" "T1 - 273.15 < T2 - 273.15"
    using assms by simp_all
  then have "2086 / (T2 - 273.15) < 2086 / (T1 - 273.15)"
    by (intro divide_strict_left_mono mult_pos_pos) simp_all
  then have "exp (- 2086 / (T1 - 273.15)) < exp (- 2086 / (T2 - 273.15))"
    by simp
  moreover have "0 < 3.05 * BU powr 1.92"
    using assms by simp
  ultimately show ?thesis
    unfolding spec_form_B_def by (rule mult_strict_left_mono)
qed

lemma form_B_nonneg: "0 \<le> BU \<Longrightarrow> 0 \<le> form_B T BU"
  by (simp add: spec_form_B_def)





subsection \<open>The total variance of a completed iteration is positive\<close>

lemma loop_locals_var_total_s_pos:
  assumes "loop_locals row = Inr l"
  shows "0 < var_total_s l"
proof -
  note a = loop_locals_InrD [OF assms]
  have "0 < dfdT_s l"
    unfolding a(3) using form_A_mono_T [of "real_of_int (T_K row) - H_T" "real_of_int (T_K row) + H_T"
        "BU_FIMA row" "TD_pct row"]
    by (simp add: H_T_def)
  then have "0 < var_T_s l"
    unfolding a(6) by (simp add: DELTA_T_def)
  moreover have "0 \<le> var_BU_s l" "0 \<le> var_TD_s l"
    unfolding a(7,8) by simp_all
  ultimately show ?thesis
    unfolding a(9) by linarith
qed

lemma loop_locals_var_total_r_pos:
  assumes "loop_locals row = Inr l" "273.15 + H_T < real_of_int (T_K row)"
  shows "0 < var_total_r l"
proof -
  note a = loop_locals_InrD [OF assms(1)]
  have "0 < BU_FIMA row"
    using a(1) by (simp add: H_BU_def)
  then have "0 < dfdT_r l"
    unfolding a(12) using assms(2) form_B_mono_T [of "real_of_int (T_K row) - H_T"
        "real_of_int (T_K row) + H_T" "BU_FIMA row"]
    by (simp add: H_T_def)
  then have "0 < var_T_r l"
    unfolding a(14) by (simp add: DELTA_T_def)
  moreover have "0 \<le> var_BU_r l"
    unfolding a(15) by simp
  ultimately show ?thesis
    unfolding a(16) by linarith
qed

lemma first_row_locals:
  "\<exists>l. loop_locals \<lparr>Sample_ID = ''RRN01-6'', Target = 1, T_K = 1190,
                      BU_FIMA = 7.058, TD_pct = 92.89\<rparr> = Inr l
       \<and> 0 < var_total_s l \<and> 0 < var_total_r l"
proof -
  let ?row = "\<lparr>Sample_ID = ''RRN01-6'', Target = 1, T_K = 1190, BU_FIMA = 7.058, TD_pct = 92.89\<rparr>"
  obtain l where l: "loop_locals ?row = Inr l"
    using loop_locals_InrI [of ?row] by (auto simp: H_T_def H_BU_def H_TD_def)
  moreover have "0 < var_total_s l"
    by (rule loop_locals_var_total_s_pos [OF l])
  moreover have "0 < var_total_r l"
    by (rule loop_locals_var_total_r_pos [OF l]) (simp add: H_T_def)
  ultimately show ?thesis by blast
qed

lemma in_domain_row_completes:
  assumes "875 \<le> T_K row \<and> 3 < BU_FIMA row \<and> 86 < TD_pct row"
  shows "\<exists>l. loop_locals row = Inr l \<and> 0 < var_total_s l \<and> 0 < var_total_r l"
proof -
  have T: "273.15 + H_T < real_of_int (T_K row)"
    using assms by (simp add: H_T_def)
  obtain l where l: "loop_locals row = Inr l"
    using loop_locals_InrI [of row] assms T by (auto simp: H_BU_def H_TD_def)
  show ?thesis
    using l loop_locals_var_total_s_pos [OF l] loop_locals_var_total_r_pos [OF l T] by blast
qed

subsection \<open>The tables, row by row\<close>

lemmas data_defs =
  data_Sample_ID_def data_Target_def data_T_K_def data_BU_FIMA_def data_TD_pct_def

lemmas fig14_data_defs =
  fig14_data_Sample_ID_def fig14_data_Target_def fig14_data_T_def fig14_data_BU_def
  fig14_data_TD_def

lemmas fig15_data_defs =
  fig15_data_Sample_ID_def fig15_data_Target_def fig15_data_T_def fig15_data_BU_def
  fig15_data_TD_def

lemmas fig12_data_defs =
  fig12_data_Sample_ID_def fig12_data_Target_def fig12_data_Temperature_K_def
  fig12_data_Burnup_FIMA_def fig12_data_Density_TD_def

lemma length_df: "length df = 36"
  by (simp add: df_def data_defs)

lemma length_fig14_rows: "length (zip fig14_data_T (zip fig14_data_BU fig14_data_TD)) = 36"
  by (simp add: fig14_data_defs)

lemma length_fig14_pairs: "length (zip fig14_data_T fig14_data_BU) = 36"
  by (simp add: fig14_data_defs)

lemma length_fig15_rows: "length (zip fig15_data_T (zip fig15_data_BU fig15_data_TD)) = 36"
  by (simp add: fig15_data_defs)

lemma df_rows_in_domain:
  "list_all (\<lambda>row. 875 \<le> T_K row \<and> 3 < BU_FIMA row \<and> 86 < TD_pct row) df"
  by (simp add: df_def data_defs numeral_eq_Suc)

lemma fig14_rows_in_domain:
  "list_all (\<lambda>(t, bu, td). 875 \<le> t \<and> 3 < bu \<and> 86 < td)
     (zip fig14_data_T (zip fig14_data_BU fig14_data_TD))"
  by (simp add: fig14_data_defs)

lemma fig14_pairs_in_domain:
  "list_all (\<lambda>(t, bu). 875 \<le> t \<and> 3 < bu) (zip fig14_data_T fig14_data_BU)"
  by (simp add: fig14_data_defs)

lemma fig15_rows_in_domain:
  "list_all (\<lambda>(t, bu, td). 875 \<le> t \<and> 3 < bu \<and> 86 < td)
     (zip fig15_data_T (zip fig15_data_BU fig15_data_TD))"
  by (simp add: fig15_data_defs)

section \<open>The claims\<close>

text \<open>
  C1. Variance contributions. In an iteration of the loop that completes, the total
  variances are not negative; when the total variance of a correlation is strictly
  positive, its per-input contributions \<open>100 v / V\<close> (three for Storms, two for
  Rogozkin) add up to exactly 100. When the total variance is 0, the guard
  \<open>if var_total > 0 else 0\<close> reports every contribution as 0 and no division takes
  place. The second part is a property of the guard, stated for any values of the
  local variables: with exact arithmetic a completed iteration always has a positive
  total variance.
\<close>

theorem variance_contributions_sum_to_100:
  "(loop_locals row = Inr l \<longrightarrow>
      loop_body row = Inr (results_entry row l)
      \<and> 0 \<le> var_total_s l \<and> 0 \<le> var_total_r l
      \<and> (0 < var_total_s l \<longrightarrow>
            Storms_var_T_pct (results_entry row l) + Storms_var_BU_pct (results_entry row l)
              + Storms_var_TD_pct (results_entry row l) = 100)
      \<and> (0 < var_total_r l \<longrightarrow>
            Rogozkin_var_T_pct (results_entry row l) + Rogozkin_var_BU_pct (results_entry row l) = 100))
   \<and> (var_total_s z = 0 \<longrightarrow>
        Storms_var_T_pct (results_entry row z) = 0 \<and> Storms_var_BU_pct (results_entry row z) = 0
        \<and> Storms_var_TD_pct (results_entry row z) = 0)
   \<and> (var_total_r z = 0 \<longrightarrow>
        Rogozkin_var_T_pct (results_entry row z) = 0 \<and> Rogozkin_var_BU_pct (results_entry row z) = 0)"
proof (intro conjI impI)
  assume ok: "loop_locals row = Inr l"
  note a = loop_locals_InrD [OF ok]
  show "loop_body row = Inr (results_entry row l)"
    by (simp add: loop_body_def ok)
  show "0 \<le> var_total_s l"
    unfolding a(9) a(6,7,8) by simp
  show "0 \<le> var_total_r l"
    unfolding a(16) a(14,15) by simp
  show "Storms_var_T_pct (results_entry row l) + Storms_var_BU_pct (results_entry row l)
          + Storms_var_TD_pct (results_entry row l) = 100" if "0 < var_total_s l"
  proof -
    have "100 * var_T_s l / var_total_s l + 100 * var_BU_s l / var_total_s l
            + 100 * var_TD_s l / var_total_s l
          = 100 * (var_T_s l + var_BU_s l + var_TD_s l) / var_total_s l"
      by (simp add: add_divide_distrib distrib_left)
    also have "\<dots> = 100"
      using that by (simp add: a(9) [symmetric])
    finally show ?thesis
      using that by (simp add: results_entry_def)
  qed
  show "Rogozkin_var_T_pct (results_entry row l) + Rogozkin_var_BU_pct (results_entry row l) = 100"
    if "0 < var_total_r l"
  proof -
    have "100 * var_T_r l / var_total_r l + 100 * var_BU_r l / var_total_r l
          = 100 * (var_T_r l + var_BU_r l) / var_total_r l"
      by (simp add: add_divide_distrib distrib_left)
    also have "\<dots> = 100"
      using that by (simp add: a(16) [symmetric])
    finally show ?thesis
      using that by (simp add: results_entry_def)
  qed
qed (simp_all add: results_entry_def)

theorem variance_contributions_sum_to_100_witness:
  "\<exists>l. loop_locals \<lparr>Sample_ID = ''RRN01-6'', Target = 1, T_K = 1190,
                     BU_FIMA = 7.058, TD_pct = 92.89\<rparr> = Inr l
     \<and> 0 < var_total_s l \<and> 0 < var_total_r l
     \<and> Storms_var_T_pct (results_entry \<lparr>Sample_ID = ''RRN01-6'', Target = 1, T_K = 1190,
                     BU_FIMA = 7.058, TD_pct = 92.89\<rparr> l)
       + Storms_var_BU_pct (results_entry \<lparr>Sample_ID = ''RRN01-6'', Target = 1, T_K = 1190,
                     BU_FIMA = 7.058, TD_pct = 92.89\<rparr> l)
       + Storms_var_TD_pct (results_entry \<lparr>Sample_ID = ''RRN01-6'', Target = 1, T_K = 1190,
                     BU_FIMA = 7.058, TD_pct = 92.89\<rparr> l) = 100
     \<and> Rogozkin_var_T_pct (results_entry \<lparr>Sample_ID = ''RRN01-6'', Target = 1, T_K = 1190,
                     BU_FIMA = 7.058, TD_pct = 92.89\<rparr> l)
       + Rogozkin_var_BU_pct (results_entry \<lparr>Sample_ID = ''RRN01-6'', Target = 1, T_K = 1190,
                     BU_FIMA = 7.058, TD_pct = 92.89\<rparr> l) = 100
     \<and> var_total_s (l\<lparr>var_total_s := 0\<rparr>) = 0
     \<and> Storms_var_T_pct (results_entry \<lparr>Sample_ID = ''RRN01-6'', Target = 1, T_K = 1190,
                     BU_FIMA = 7.058, TD_pct = 92.89\<rparr> (l\<lparr>var_total_s := 0\<rparr>)) = 0
     \<and> var_total_r (l\<lparr>var_total_r := 0\<rparr>) = 0
     \<and> Rogozkin_var_T_pct (results_entry \<lparr>Sample_ID = ''RRN01-6'', Target = 1, T_K = 1190,
                     BU_FIMA = 7.058, TD_pct = 92.89\<rparr> (l\<lparr>var_total_r := 0\<rparr>)) = 0"
proof -
  let ?row = "\<lparr>Sample_ID = ''RRN01-6'', Target = 1, T_K = 1190, BU_FIMA = 7.058, TD_pct = 92.89\<rparr>"
  obtain l where l: "loop_locals ?row = Inr l" "0 < var_total_s l" "0 < var_total_r l"
    using first_row_locals by blast
  have s0: "var_total_s (l\<lparr>var_total_s := 0\<rparr>) = 0" and r0: "var_total_r (l\<lparr>var_total_r := 0\<rparr>) = 0"
    by simp_all
  show ?thesis
    using l s0 r0
      variance_contributions_sum_to_100 [where row = ?row and l = l and z = "l\<lparr>var_total_s := 0\<rparr>"]
      variance_contributions_sum_to_100 [where row = ?row and l = l and z = "l\<lparr>var_total_r := 0\<rparr>"]
    by blast
qed




text \<open>
  C3. For positive burnup and density and any temperature, \<open>storms_fgr\<close> (in both
  scripts that define it) returns \<open>100 / (exp(0.0025 (90 rho^0.77 / BU^0.09 - T)) + 1)\<close>,
  Form A with k = 0.0025, c1 = 90, a = 0.77, b = 0.09; at T = 1190, BU = 7.058,
  rho = 92.89 the returned value is the direct substitution into that formula.
\<close>

theorem storms_fgr_is_form_A:
  assumes "0 < BU" "0 < TD"
  shows "storms_fgr T BU TD = Inr (spec_form_A 0.0025 90 0.77 0.09 T BU TD)
       \<and> fig14_storms_fgr T BU TD = Inr (spec_form_A 0.0025 90 0.77 0.09 T BU TD)
       \<and> storms_fgr 1190 7.058 92.89 = Inr (spec_form_A 0.0025 90 0.77 0.09 1190 7.058 92.89)
       \<and> fig14_storms_fgr 1190 7.058 92.89 = Inr (spec_form_A 0.0025 90 0.77 0.09 1190 7.058 92.89)"
  using assms by (simp add: storms_fgr_Inr_iff fig14_storms_fgr_Inr_iff)

theorem storms_fgr_is_form_A_witness:
  "(0::real) < 5.485 \<and> (0::real) < 87.30
   \<and> storms_fgr 1191 5.485 87.30 = Inr (spec_form_A 0.0025 90 0.77 0.09 1191 5.485 87.30)
   \<and> fig14_storms_fgr 1191 5.485 87.30 = Inr (spec_form_A 0.0025 90 0.77 0.09 1191 5.485 87.30)"
  using storms_fgr_is_form_A [where BU = "5.485" and TD = "87.30" and T = 1191]
  by simp



text \<open>
  C5. In a completed iteration every partial derivative is the centered difference
  \<open>(f(x+h) - f(x-h)) / (2h)\<close> of the correlation in one variable, with the steps 1 K,
  0.01 %FIMA and 0.1 %TD, the other arguments being the values of the row. Here
  \<open>projr\<close> reads the value a call returned; a completed iteration means every call
  returned one. \<open>propagate_storms\<close> and \<open>propagate_rogozkin\<close> of figure 14 combine the
  same centered differences.
\<close>

theorem derivatives_are_centered_differences:
  "(loop_locals row = Inr l \<longrightarrow>
      dfdT_s l = spec_central_difference
                   (\<lambda>x. projr (storms_fgr x (BU_FIMA row) (TD_pct row))) (real_of_int (T_K row)) 1
      \<and> dfdBU_s l = spec_central_difference
                   (\<lambda>x. projr (storms_fgr (real_of_int (T_K row)) x (TD_pct row))) (BU_FIMA row) 0.01
      \<and> dfdTD_s l = spec_central_difference
                   (\<lambda>x. projr (storms_fgr (real_of_int (T_K row)) (BU_FIMA row) x)) (TD_pct row) 0.1
      \<and> dfdT_r l = spec_central_difference
                   (\<lambda>x. projr (rogozkin_fgr x (BU_FIMA row))) (real_of_int (T_K row)) 1
      \<and> dfdBU_r l = spec_central_difference
                   (\<lambda>x. projr (rogozkin_fgr (real_of_int (T_K row)) x)) (BU_FIMA row) 0.01)
   \<and> (propagate_storms T BU TD = Inr (fgr, sigma) \<longrightarrow>
        sigma = sqrt ((spec_central_difference (\<lambda>x. projr (fig14_storms_fgr x BU TD)) T 1 * 30) ^ 2
                    + (spec_central_difference (\<lambda>x. projr (fig14_storms_fgr T x TD)) BU 0.01 * 0.5) ^ 2
                    + (spec_central_difference (\<lambda>x. projr (fig14_storms_fgr T BU x)) TD 0.1 * 2) ^ 2))
   \<and> (propagate_rogozkin T BU = Inr (fgr', sigma') \<longrightarrow>
        sigma' = sqrt ((spec_central_difference (\<lambda>x. projr (fig14_rogozkin_fgr x BU)) T 1 * 30) ^ 2
                     + (spec_central_difference (\<lambda>x. projr (fig14_rogozkin_fgr T x)) BU 0.01 * 0.5) ^ 2))"
proof (intro conjI impI)
  assume ok: "loop_locals row = Inr l"
  note a = loop_locals_InrD [OF ok]
  have dom: "0 < BU_FIMA row - 0.01" "0 < BU_FIMA row" "0 < BU_FIMA row + 0.01"
    "0 \<le> TD_pct row - 0.1" "0 \<le> TD_pct row" "0 \<le> TD_pct row + 0.1"
    "real_of_int (T_K row) \<noteq> 273.15" "real_of_int (T_K row) + 1 \<noteq> 273.15"
    "real_of_int (T_K row) - 1 \<noteq> 273.15"
    using a(1) by (simp_all add: H_T_def H_BU_def H_TD_def)
  show "dfdT_s l = spec_central_difference
          (\<lambda>x. projr (storms_fgr x (BU_FIMA row) (TD_pct row))) (real_of_int (T_K row)) 1"
    unfolding a(3) spec_central_difference_def using dom
    by (simp add: projr_storms_fgr H_T_def)
  show "dfdBU_s l = spec_central_difference
          (\<lambda>x. projr (storms_fgr (real_of_int (T_K row)) x (TD_pct row))) (BU_FIMA row) 0.01"
    unfolding a(4) spec_central_difference_def using dom
    by (simp add: projr_storms_fgr H_BU_def)
  show "dfdTD_s l = spec_central_difference
          (\<lambda>x. projr (storms_fgr (real_of_int (T_K row)) (BU_FIMA row) x)) (TD_pct row) 0.1"
    unfolding a(5) spec_central_difference_def using dom
    by (simp add: projr_storms_fgr H_TD_def)
  show "dfdT_r l = spec_central_difference
          (\<lambda>x. projr (rogozkin_fgr x (BU_FIMA row))) (real_of_int (T_K row)) 1"
    unfolding a(12) spec_central_difference_def using dom
    by (simp add: projr_rogozkin_fgr H_T_def)
  show "dfdBU_r l = spec_central_difference
          (\<lambda>x. projr (rogozkin_fgr (real_of_int (T_K row)) x)) (BU_FIMA row) 0.01"
    unfolding a(13) spec_central_difference_def using dom
    by (simp add: projr_rogozkin_fgr H_BU_def)
next
  assume ok: "propagate_storms T BU TD = Inr (fgr, sigma)"
  note a = propagate_storms_InrD [OF ok]
  have dom: "0 < BU - 0.01" "0 < BU" "0 < BU + 0.01" "0 \<le> TD - 0.1" "0 \<le> TD" "0 \<le> TD + 0.1"
    using a(1) by (simp_all add: h_BU_def h_TD_def)
  have "sigma = snd (fgr, sigma)"
    by simp
  also note a(3)
  finally show "sigma =
      sqrt ((spec_central_difference (\<lambda>x. projr (fig14_storms_fgr x BU TD)) T 1 * 30) ^ 2
          + (spec_central_difference (\<lambda>x. projr (fig14_storms_fgr T x TD)) BU 0.01 * 0.5) ^ 2
          + (spec_central_difference (\<lambda>x. projr (fig14_storms_fgr T BU x)) TD 0.1 * 2) ^ 2)"
    unfolding spec_central_difference_def using dom
    by (simp add: projr_fig14_storms_fgr h_T_def h_BU_def h_TD_def dT_def dBU_def dTD_def)
next
  assume ok: "propagate_rogozkin T BU = Inr (fgr', sigma')"
  note a = propagate_rogozkin_InrD [OF ok]
  have dom: "0 \<le> BU - 0.01" "0 \<le> BU" "0 \<le> BU + 0.01"
    "T \<noteq> 273.15" "T + 1 \<noteq> 273.15" "T - 1 \<noteq> 273.15"
    using a(1) by (simp_all add: h_BU_def h_T_def)
  have "sigma' = snd (fgr', sigma')"
    by simp
  also note a(3)
  finally show "sigma' =
      sqrt ((spec_central_difference (\<lambda>x. projr (fig14_rogozkin_fgr x BU)) T 1 * 30) ^ 2
          + (spec_central_difference (\<lambda>x. projr (fig14_rogozkin_fgr T x)) BU 0.01 * 0.5) ^ 2)"
    unfolding spec_central_difference_def using dom
    by (simp add: projr_fig14_rogozkin_fgr h_T_def h_BU_def dT_def dBU_def)
qed

theorem derivatives_are_centered_differences_witness:
  "\<exists>l fgr sigma fgr' sigma'.
      loop_locals \<lparr>Sample_ID = ''RRN01-6'', Target = 1, T_K = 1190,
                   BU_FIMA = 7.058, TD_pct = 92.89\<rparr> = Inr l
    \<and> dfdT_s l = spec_central_difference (\<lambda>x. projr (storms_fgr x 7.058 92.89)) 1190 1
    \<and> dfdBU_r l = spec_central_difference (\<lambda>x. projr (rogozkin_fgr 1190 x)) 7.058 0.01
    \<and> propagate_storms 1190 7.058 92.89 = Inr (fgr, sigma)
    \<and> sigma = sqrt ((spec_central_difference (\<lambda>x. projr (fig14_storms_fgr x 7.058 92.89)) 1190 1 * 30) ^ 2
                  + (spec_central_difference (\<lambda>x. projr (fig14_storms_fgr 1190 x 92.89)) 7.058 0.01 * 0.5) ^ 2
                  + (spec_central_difference (\<lambda>x. projr (fig14_storms_fgr 1190 7.058 x)) 92.89 0.1 * 2) ^ 2)
    \<and> propagate_rogozkin 1190 7.058 = Inr (fgr', sigma')
    \<and> sigma' = sqrt ((spec_central_difference (\<lambda>x. projr (fig14_rogozkin_fgr x 7.058)) 1190 1 * 30) ^ 2
                   + (spec_central_difference (\<lambda>x. projr (fig14_rogozkin_fgr 1190 x)) 7.058 0.01 * 0.5) ^ 2)"
proof -
  let ?row = "\<lparr>Sample_ID = ''RRN01-6'', Target = 1, T_K = 1190, BU_FIMA = 7.058, TD_pct = 92.89\<rparr>"
  obtain l where l: "loop_locals ?row = Inr l"
    using first_row_locals by blast
  obtain fgr sigma where s: "propagate_storms 1190 7.058 92.89 = Inr (fgr, sigma)"
    using propagate_storms_InrI [of "7.058" "92.89" 1190]
    by (auto simp: h_BU_def h_TD_def)
  obtain fgr' sigma' where r: "propagate_rogozkin 1190 7.058 = Inr (fgr', sigma')"
    using propagate_rogozkin_InrI [of "7.058" 1190]
    by (auto simp: h_BU_def h_T_def)
  have sel: "real_of_int (T_K ?row) = 1190" "BU_FIMA ?row = 7.058" "TD_pct ?row = 92.89"
    by simp_all
  show ?thesis
    using l s r derivatives_are_centered_differences [where row = ?row and l = l and T = 1190
        and BU = "7.058" and TD = "92.89" and fgr = fgr and sigma = sigma and fgr' = fgr'
        and sigma' = sigma', unfolded sel]
    by blast
qed





text \<open>
  C8. The four scripts hold the same tables: sample identifiers, temperatures,
  burnups, densities and targets are equal entry by entry, each has 36 entries, and
  the targets 1 to 6 have six specimens each, in blocks of six that match the
  prefix of the identifiers.
\<close>

theorem specimen_tables_agree:
  "data_Sample_ID = fig14_data_Sample_ID \<and> data_Sample_ID = fig15_data_Sample_ID
   \<and> data_Sample_ID = fig12_data_Sample_ID
   \<and> data_T_K = fig14_data_T \<and> data_T_K = fig15_data_T \<and> data_T_K = fig12_data_Temperature_K
   \<and> data_BU_FIMA = fig14_data_BU \<and> data_BU_FIMA = fig15_data_BU
   \<and> data_BU_FIMA = fig12_data_Burnup_FIMA
   \<and> data_TD_pct = fig14_data_TD \<and> data_TD_pct = fig15_data_TD
   \<and> data_TD_pct = fig12_data_Density_TD
   \<and> data_Target = fig14_data_Target \<and> data_Target = fig15_data_Target
   \<and> data_Target = fig12_data_Target
   \<and> length data_Sample_ID = 36 \<and> length data_T_K = 36 \<and> length data_BU_FIMA = 36
   \<and> length data_TD_pct = 36 \<and> length data_Target = 36
   \<and> data_Target = concat (map (replicate 6) [1, 2, 3, 4, 5, 6])
   \<and> map (count_list data_Target) [1, 2, 3, 4, 5, 6] = [6, 6, 6, 6, 6, 6]
   \<and> map (take 5) data_Sample_ID
       = concat (map (replicate 6) [''RRN01'', ''RRN02'', ''RRN03'', ''RRN04'', ''RRN05'', ''RRN06''])"
  by (simp add: data_defs fig14_data_defs fig15_data_defs fig12_data_defs numeral_eq_Suc)

text \<open>
  C9. Every row of the table has T > 273.15 K (the least temperature is 875 K),
  positive burnup and positive density. Hence every iteration of the loop completes
  with strictly positive total variances, so the zero-variance branch is not taken,
  and the row-wise calls of the Storms, Rogozkin and Ross correlations in all three
  scripts return a value for each of the 36 rows.
\<close>

theorem dataset_inside_domain:
  "list_all (\<lambda>row. 273.15 < real_of_int (T_K row) \<and> 0 < BU_FIMA row \<and> 0 < TD_pct row) df
   \<and> list_all (\<lambda>t. 875 \<le> t) data_T_K \<and> 875 \<in> set data_T_K
   \<and> list_all (\<lambda>row. \<exists>l. loop_locals row = Inr l \<and> 0 < var_total_s l \<and> 0 < var_total_r l) df
   \<and> (\<exists>rs. results = Inr rs \<and> length rs = 36)
   \<and> (\<exists>ps. storms_results = Inr ps \<and> length ps = 36)
   \<and> (\<exists>ps. rogozkin_results = Inr ps \<and> length ps = 36)
   \<and> (\<exists>vs. Swelling_Ross = Inr vs \<and> length vs = 36)"
proof (intro conjI)
  show "list_all (\<lambda>row. 273.15 < real_of_int (T_K row) \<and> 0 < BU_FIMA row \<and> 0 < TD_pct row) df"
    using df_rows_in_domain by (rule list.pred_mono_strong) auto
  show "list_all (\<lambda>t. 875 \<le> t) data_T_K" and "875 \<in> set data_T_K"
    by (simp_all add: data_T_K_def)
  show rows: "list_all (\<lambda>row. \<exists>l. loop_locals row = Inr l \<and> 0 < var_total_s l \<and> 0 < var_total_r l) df"
    using df_rows_in_domain by (rule list.pred_mono_strong) (rule in_domain_row_completes)
  have "list_all (\<lambda>row. \<exists>r. loop_body row = Inr r) df"
    using rows by (rule list.pred_mono_strong) (auto simp: loop_body_def)
  from for_each_Inr [OF this] show "\<exists>rs. results = Inr rs \<and> length rs = 36"
    unfolding results_def length_df .
  have "list_all (\<lambda>x. \<exists>p. (case x of (t, bu, td) \<Rightarrow> propagate_storms (real_of_int t) bu td) = Inr p)
          (zip fig14_data_T (zip fig14_data_BU fig14_data_TD))"
    using fig14_rows_in_domain
  proof (rule list.pred_mono_strong)
    fix x :: "int \<times> real \<times> real"
    assume "case x of (t, bu, td) \<Rightarrow> 875 \<le> t \<and> 3 < bu \<and> 86 < td"
    then show "\<exists>p. (case x of (t, bu, td) \<Rightarrow> propagate_storms (real_of_int t) bu td) = Inr p"
      using propagate_storms_InrI [of "fst (snd x)" "snd (snd x)" "real_of_int (fst x)"]
      by (auto simp: h_BU_def h_TD_def)
  qed
  from for_each_Inr [OF this] show "\<exists>ps. storms_results = Inr ps \<and> length ps = 36"
    unfolding storms_results_def length_fig14_rows .
  have "list_all (\<lambda>x. \<exists>p. (case x of (t, bu) \<Rightarrow> propagate_rogozkin (real_of_int t) bu) = Inr p)
          (zip fig14_data_T fig14_data_BU)"
    using fig14_pairs_in_domain
  proof (rule list.pred_mono_strong)
    fix x :: "int \<times> real"
    assume "case x of (t, bu) \<Rightarrow> 875 \<le> t \<and> 3 < bu"
    then show "\<exists>p. (case x of (t, bu) \<Rightarrow> propagate_rogozkin (real_of_int t) bu) = Inr p"
      using propagate_rogozkin_InrI [of "snd x" "real_of_int (fst x)"]
      by (auto simp: h_BU_def h_T_def)
  qed
  from for_each_Inr [OF this] show "\<exists>ps. rogozkin_results = Inr ps \<and> length ps = 36"
    unfolding rogozkin_results_def length_fig14_pairs .
  have "list_all (\<lambda>x. \<exists>v. (case x of (t, bu, td) \<Rightarrow> ross_swelling (real_of_int t) bu td) = Inr v)
          (zip fig15_data_T (zip fig15_data_BU fig15_data_TD))"
    using fig15_rows_in_domain
  proof (rule list.pred_mono_strong)
    fix x :: "int \<times> real \<times> real"
    assume "case x of (t, bu, td) \<Rightarrow> 875 \<le> t \<and> 3 < bu \<and> 86 < td"
    then show "\<exists>v. (case x of (t, bu, td) \<Rightarrow> ross_swelling (real_of_int t) bu td) = Inr v"
      using ross_swelling_InrI [of "real_of_int (fst x)" "fst (snd x)" "snd (snd x)"]
      by auto
  qed
  from for_each_Inr [OF this] show "\<exists>vs. Swelling_Ross = Inr vs \<and> length vs = 36"
    unfolding Swelling_Ross_def length_fig15_rows .
qed



end
